theory Spec2Isabelle
  imports Complex_Main "HOL-Library.Word" "HOL-Library.Sublist"
begin

section \<open>Python values\<close>

text \<open>
  Every value the daemon handles comes out of \<^verbatim>\<open>json.loads\<close>/\<^verbatim>\<open>json.load\<close> or is a
  literal of the source, so Python values are modelled by the JSON data model. A
  \<^verbatim>\<open>dict\<close> is the list of its items; its keys are distinct, and \<open>dict_get\<close> looks a key
  up the way \<^verbatim>\<open>dict.get(key, default)\<close> does.
\<close>

datatype json =
    JNull
  | JBool bool
  | JInt int
  | JFloat real
  | JStr string
  | JArr "json list"
  | JObj "(string \<times> json) list"

datatype py_error =
    AttributeError | TypeError | ValueError | JSONDecodeError | UnicodeDecodeError

type_synonym byte = "8 word"
type_synonym frame = "byte list"

definition dict_get :: "(string \<times> json) list \<Rightarrow> string \<Rightarrow> json \<Rightarrow> json" where
  "dict_get d k dflt = (case map_of d k of None \<Rightarrow> dflt | Some v \<Rightarrow> v)"

text \<open>\<^verbatim>\<open>isinstance(v, int)\<close>: \<^verbatim>\<open>bool\<close> is a subclass of \<^verbatim>\<open>int\<close> in Python.\<close>

fun isinstance_int :: "json \<Rightarrow> bool" where
  "isinstance_int (JInt i) = True"
| "isinstance_int (JBool b) = True"
| "isinstance_int v = False"

text \<open>The integer an \<^verbatim>\<open>int\<close> instance denotes (\<^verbatim>\<open>True\<close> is 1, \<^verbatim>\<open>False\<close> is 0).\<close>

fun int_value :: "json \<Rightarrow> int" where
  "int_value (JInt i) = i"
| "int_value (JBool b) = (if b then 1 else 0)"
| "int_value v = 0"

text \<open>
  One element of the list given to \<^verbatim>\<open>bytes([...])\<close>: an integer in \<^verbatim>\<open>range(256)\<close>, else
  \<^verbatim>\<open>ValueError\<close>; a value that is no integer raises \<^verbatim>\<open>TypeError\<close>.
\<close>

fun py_byte :: "json \<Rightarrow> py_error + byte" where
  "py_byte (JInt i) = (if 0 \<le> i \<and> i < 256 then Inr (word_of_int i) else Inl ValueError)"
| "py_byte (JBool b) = Inr (if b then 1 else 0)"
| "py_byte v = Inl TypeError"

section \<open>Configuration constants\<close>

definition DEVICE_NAME :: string where
  "DEVICE_NAME = ''CoolingSystem''"

definition RECONNECT_MIN_DELAY :: real where
  "RECONNECT_MIN_DELAY = 1"

definition RECONNECT_MAX_DELAY :: real where
  "RECONNECT_MAX_DELAY = 60"

section \<open>Daemon state\<close>

text \<open>
  The state file is absent, or present but not loadable (\<^verbatim>\<open>open\<close> or \<^verbatim>\<open>json.load\<close>
  raises), or holds a JSON value.
\<close>

datatype state_file = Absent | Unloadable | Holds json

text \<open>
  The fields of \<^verbatim>\<open>LPPDaemon\<close>, followed by the two pieces of the outside world the
  daemon writes to: \<open>link\<close>, the frames accepted by \<^verbatim>\<open>write_gatt_char\<close> in order, and
  \<open>disk\<close>, the state file. \<open>client\<close> holds the address the \<^verbatim>\<open>BleakClient\<close> was made
  for. \<open>reconnect_task\<close> and \<open>keepalive_task\<close> are true when the task exists and is
  not done.
\<close>

record daemon =
  client :: "string option"
  connected :: bool
  running :: bool
  reconnect_delay :: real
  reconnect_task :: bool
  fan_speed :: json
  pump_mode :: json
  current_client :: bool
  keepalive_task :: bool
  link :: "frame list"
  disk :: state_file

definition load_state :: "daemon \<Rightarrow> daemon" where
  "load_state s =
     (case disk s of
        Absent \<Rightarrow> s
      | Unloadable \<Rightarrow> s
      | Holds (JObj state) \<Rightarrow>
          s\<lparr>fan_speed := dict_get state ''fan'' (JInt 60),
            pump_mode := dict_get state ''pump'' (JInt 0)\<rparr>
      | Holds v \<Rightarrow> s)"

text \<open>\<^verbatim>\<open>LPPDaemon.__init__\<close>, run against the state file \<open>f\<close>.\<close>

definition init_daemon :: "state_file \<Rightarrow> daemon" where
  "init_daemon f =
     load_state
       \<lparr>client = None, connected = False, running = True,
        reconnect_delay = RECONNECT_MIN_DELAY, reconnect_task = False,
        fan_speed = JInt 60, pump_mode = JInt 0,
        current_client = False, keepalive_task = False,
        link = [], disk = f\<rparr>"

text \<open>
  What the file system does with one call of \<^verbatim>\<open>_save_state\<close>: the write goes through, or
  it raises and leaves the file in the given condition: as it was when \<^verbatim>\<open>mkdir\<close> or
  \<^verbatim>\<open>open\<close> raises, empty or cut short (so unloadable) when \<^verbatim>\<open>json.dump\<close> or the close
  raises after \<^verbatim>\<open>open(STATE_PATH, 'w')\<close> has truncated the file.
\<close>

datatype save_outcome = Saved | SaveFailed state_file

text \<open>\<^verbatim>\<open>_save_state\<close>: a failure is caught and logged, nothing is raised.\<close>

fun save_state :: "save_outcome \<Rightarrow> daemon \<Rightarrow> daemon" where
  "save_state Saved s =
     s\<lparr>disk := Holds (JObj [(''fan'', fan_speed s), (''pump'', pump_mode s)])\<rparr>"
| "save_state (SaveFailed left) s = s\<lparr>disk := left\<rparr>"

definition schedule_reconnect :: "daemon \<Rightarrow> daemon" where
  "schedule_reconnect s =
     (if \<not> running s then s
      else if reconnect_task s then s
      else s\<lparr>reconnect_task := True\<rparr>)"

text \<open>
  \<^verbatim>\<open>send_command\<close>: \<open>ok\<close> is the outcome of the \<^verbatim>\<open>write_gatt_char\<close> call, should it be
  made (true: it returns, false: it raises).
\<close>

definition send_command :: "bool \<Rightarrow> frame \<Rightarrow> daemon \<Rightarrow> bool \<times> daemon" where
  "send_command ok data s =
     (if \<not> connected s \<or> client s = None then (False, s)
      else if ok then (True, s\<lparr>link := link s @ [data]\<rparr>)
      else (False, schedule_reconnect (s\<lparr>connected := False\<rparr>)))"

definition fan_cmd :: "json \<Rightarrow> py_error + frame" where
  "fan_cmd speed =
     (case py_byte speed of
        Inl e \<Rightarrow> Inl e
      | Inr b \<Rightarrow> Inr [0xfe, 0x1b, 0x01, b, 0x00, 0x00, 0x00, 0xef])"

definition pump_cmd :: "json \<Rightarrow> py_error + frame" where
  "pump_cmd mode =
     (case py_byte mode of
        Inl e \<Rightarrow> Inl e
      | Inr b \<Rightarrow> Inr [0xfe, 0x1c, 0x01, 0x3c, b, 0x00, 0x00, 0xef])"

text \<open>
  \<^verbatim>\<open>send_fan_speed(speed, save)\<close>. \<open>wok\<close> is the outcome of the link write, \<open>sok\<close> of the
  state-file write. \<^verbatim>\<open>bytes(...)\<close> raises before anything is changed, so an error
  carries no state.
\<close>

definition send_fan_speed ::
  "bool \<Rightarrow> save_outcome \<Rightarrow> json \<Rightarrow> bool \<Rightarrow> daemon \<Rightarrow> py_error + (bool \<times> daemon)" where
  "send_fan_speed wok sok speed save s =
     (case fan_cmd speed of
        Inl e \<Rightarrow> Inl e
      | Inr cmd \<Rightarrow>
          (case send_command wok cmd s of
             (True, s1) \<Rightarrow>
               (let s2 = s1\<lparr>fan_speed := speed\<rparr>
                in Inr (True, if save then save_state sok s2 else s2))
           | (False, s1) \<Rightarrow> Inr (False, s1)))"

definition send_pump_mode ::
  "bool \<Rightarrow> save_outcome \<Rightarrow> json \<Rightarrow> bool \<Rightarrow> daemon \<Rightarrow> py_error + (bool \<times> daemon)" where
  "send_pump_mode wok sok mode save s =
     (case pump_cmd mode of
        Inl e \<Rightarrow> Inl e
      | Inr cmd \<Rightarrow>
          (case send_command wok cmd s of
             (True, s1) \<Rightarrow>
               (let s2 = s1\<lparr>pump_mode := mode\<rparr>
                in Inr (True, if save then save_state sok s2 else s2))
           | (False, s1) \<Rightarrow> Inr (False, s1)))"

section \<open>Link session: initialization and connect\<close>

definition init_cmds :: "frame list" where
  "init_cmds =
     [[0xfe, 0x1c, 0x01, 0x3c, 0x03, 0x00, 0x00, 0xef],
      [0xfe, 0x1b, 0x01, 0x3c, 0x00, 0x00, 0x00, 0xef],
      [0xfe, 0x1e, 0x01, 0x00, 0xb8, 0xff, 0x00, 0xef],
      [0xfe, 0x33, 0x00, 0x00, 0x00, 0x00, 0x00, 0xef],
      [0x73, 0x77]]"

text \<open>
  A \<^verbatim>\<open>for cmd in cmds: await self.send_command(cmd)\<close> loop; the result of each send is
  dropped. \<open>w\<close> gives the outcome of the link write of every \<^verbatim>\<open>send_command\<close> call of
  one connection procedure, numbered from 0; \<open>i\<close> is the number of the next call.
\<close>

fun send_all :: "(nat \<Rightarrow> bool) \<Rightarrow> nat \<Rightarrow> frame list \<Rightarrow> daemon \<Rightarrow> daemon" where
  "send_all w i [] s = s"
| "send_all w i (cmd # cmds) s = send_all w (Suc i) cmds (snd (send_command (w i) cmd s))"

definition init_device :: "(nat \<Rightarrow> bool) \<Rightarrow> daemon \<Rightarrow> daemon" where
  "init_device w s = send_all w 5 (butlast init_cmds) (send_all w 0 init_cmds s)"

text \<open>The frames of one full initialization sequence, in the order they are sent.\<close>

definition init_sequence :: "frame list" where
  "init_sequence = init_cmds @ butlast init_cmds"

datatype device = Device (address: string) (name: "string option")

text \<open>\<^verbatim>\<open>str.lower\<close> on ASCII text (addresses and advertised names).\<close>

definition lower_char :: "char \<Rightarrow> char" where
  "lower_char c =
     (if (65::nat) \<le> of_char c \<and> of_char c \<le> (90::nat)
      then char_of (of_char c + (32::nat)) else c)"

definition lower :: "string \<Rightarrow> string" where
  "lower = map lower_char"

text \<open>
  The \<^verbatim>\<open>for d in devices\<close> loop of \<^verbatim>\<open>connect_ble\<close> with its two \<^verbatim>\<open>break\<close>s; \<open>addr\<close> is
  \<^verbatim>\<open>DEVICE_ADDRESS\<close>, the empty string when none is configured.
\<close>

fun select_device :: "string \<Rightarrow> device list \<Rightarrow> string option" where
  "select_device addr [] = None"
| "select_device addr (d # ds) =
     (if addr \<noteq> [] \<and> lower addr = lower (address d) then Some (address d)
      else if (case name d of None \<Rightarrow> False
               | Some n \<Rightarrow> n \<noteq> [] \<and> sublist (lower DEVICE_NAME) (lower n))
      then Some (address d)
      else select_device addr ds)"

text \<open>
  What the transport does during one call of \<^verbatim>\<open>connect_ble\<close>: the scan result
  (\<open>None\<close> when \<^verbatim>\<open>discover\<close> raises), whether \<^verbatim>\<open>connect\<close> and \<^verbatim>\<open>start_notify\<close> return, and
  the outcome of each link write.
\<close>

record ble_env =
  discover :: "device list option"
  connect_ok :: bool
  notify_ok :: bool
  write_ok :: "nat \<Rightarrow> bool"

definition start_keepalive :: "daemon \<Rightarrow> daemon" where
  "start_keepalive s = (if keepalive_task s then s else s\<lparr>keepalive_task := True\<rparr>)"


text \<open>
  \<^verbatim>\<open>connect_ble\<close>, run without another task in between. Every exception inside the
  \<^verbatim>\<open>try\<close> ends in the handler, which clears \<open>connected\<close> and returns False.
\<close>

definition connect_ble :: "string \<Rightarrow> ble_env \<Rightarrow> daemon \<Rightarrow> bool \<times> daemon" where
  "connect_ble addr env s =
     (case discover env of
        None \<Rightarrow> (False, s\<lparr>connected := False\<rparr>)
      | Some devices \<Rightarrow>
          (case select_device addr devices of
             None \<Rightarrow> (False, s)
           | Some a \<Rightarrow>
               if a = [] then (False, s)
               else
                 let s1 = s\<lparr>client := Some a\<rparr> in
                 if \<not> connect_ok env \<or> \<not> notify_ok env then (False, s1\<lparr>connected := False\<rparr>)
                 else
                   let s2 = s1\<lparr>connected := True, reconnect_delay := RECONNECT_MIN_DELAY\<rparr>;
                       s3 = init_device (write_ok env) s2
                   in (case send_fan_speed (write_ok env 9) Saved (fan_speed s3) False s3 of
                         Inl e \<Rightarrow> (False, s3\<lparr>connected := False\<rparr>)
                       | Inr (r4, s4) \<Rightarrow>
                           (case send_pump_mode (write_ok env 10) Saved (pump_mode s4) False s4 of
                              Inl e \<Rightarrow> (False, s4\<lparr>connected := False\<rparr>)
                            | Inr (r5, s5) \<Rightarrow> (True, start_keepalive s5)))))"


text \<open>
  The \<^verbatim>\<open>reconnect\<close> loop of \<^verbatim>\<open>_schedule_reconnect\<close>. The list holds what the transport does
  at each attempt; when it runs out the task is left sleeping. The result lists the
  delays given to \<^verbatim>\<open>asyncio.sleep\<close>, in order.
\<close>

fun reconnect :: "string \<Rightarrow> ble_env list \<Rightarrow> daemon \<Rightarrow> real list \<times> daemon" where
  "reconnect addr [] s =
     (if running s \<and> \<not> connected s then ([], s) else ([], s\<lparr>reconnect_task := False\<rparr>))"
| "reconnect addr (env # envs) s =
     (if running s \<and> \<not> connected s then
        (case connect_ble addr env s of
           (True, s1) \<Rightarrow> ([reconnect_delay s], s1\<lparr>reconnect_task := False\<rparr>)
         | (False, s1) \<Rightarrow>
             (case reconnect addr envs
                     (s1\<lparr>reconnect_delay := min (reconnect_delay s1 * 2) RECONNECT_MAX_DELAY\<rparr>) of
                (ds, s2) \<Rightarrow> (reconnect_delay s # ds, s2)))
      else ([], s\<lparr>reconnect_task := False\<rparr>))"

section \<open>Request dispatcher and client handler\<close>

type_synonym response = "(string \<times> json) list"

definition state_response :: "bool \<Rightarrow> daemon \<Rightarrow> response" where
  "state_response ok s =
     [(''ok'', JBool ok), (''connected'', JBool (connected s)),
      (''fan'', fan_speed s), (''pump'', pump_mode s)]"

definition error_response :: "string \<Rightarrow> response" where
  "error_response msg = [(''ok'', JBool False), (''error'', JStr msg)]"

text \<open>
  \<^verbatim>\<open>process_request\<close>. \<open>fmt\<close> is Python's formatting of a value inside an f-string;
  \<open>wok\<close> and \<open>sok\<close> are the outcomes of the link write and of the state-file write,
  should the request reach them. \<^verbatim>\<open>request.get\<close> on a value that is no \<^verbatim>\<open>dict\<close> raises
  \<^verbatim>\<open>AttributeError\<close>.
\<close>

definition process_request ::
  "(json \<Rightarrow> string) \<Rightarrow> bool \<Rightarrow> save_outcome \<Rightarrow> json \<Rightarrow> daemon
     \<Rightarrow> py_error + (response \<times> daemon)" where
  "process_request fmt wok sok request s =
     (case request of
        JObj req \<Rightarrow>
          (let cmd = dict_get req ''cmd'' (JStr [])
           in if cmd = JStr ''status'' then Inr (state_response True s, s)
              else if cmd = JStr ''fan'' then
                (let v = dict_get req ''value'' JNull
                 in if \<not> isinstance_int v \<or> \<not> (0 \<le> int_value v \<and> int_value v \<le> 100)
                    then Inr (error_response ''Fan value must be 0-100'', s)
                    else if \<not> connected s
                    then Inr (error_response ''Not connected to device'', s)
                    else (case send_fan_speed wok sok v True s of
                            Inl e \<Rightarrow> Inl e
                          | Inr (success, s1) \<Rightarrow> Inr (state_response success s1, s1)))
              else if cmd = JStr ''pump'' then
                (let v = dict_get req ''value'' JNull
                 in if \<not> isinstance_int v \<or> \<not> (0 \<le> int_value v \<and> int_value v \<le> 3)
                    then Inr (error_response ''Pump mode must be 0-3'', s)
                    else if \<not> connected s
                    then Inr (error_response ''Not connected to device'', s)
                    else (case send_pump_mode wok sok v True s of
                            Inl e \<Rightarrow> Inl e
                          | Inr (success, s1) \<Rightarrow> Inr (state_response success s1, s1)))
              else if cmd = JStr ''reconnect'' then
                (if connected s
                 then Inr ([(''ok'', JBool True), (''connected'', JBool True),
                            (''fan'', fan_speed s), (''pump'', pump_mode s)], s)
                 else Inr ([(''ok'', JBool True), (''connected'', JBool False),
                            (''message'', JStr ''Reconnection scheduled'')],
                           schedule_reconnect s))
              else Inr (error_response (''Unknown command: '' @ fmt cmd), s))
      | _ \<Rightarrow> Inl AttributeError)"

text \<open>
  One line read from a client: the outcome of \<^verbatim>\<open>json.loads(data.decode())\<close> together
  with the outcomes of the link write and state-file write its request may cause.
\<close>

type_synonym line = "(py_error + json) \<times> bool \<times> save_outcome"

datatype handler_end = PeerClosed | NotRunning | Uncaught py_error

text \<open>
  The \<^verbatim>\<open>while self.running\<close> loop of \<^verbatim>\<open>handle_client\<close> over the lines the peer sends: the
  responses written, in order, and why the loop ended. Only \<^verbatim>\<open>JSONDecodeError\<close> is
  caught inside the loop; any other exception leaves it.
\<close>

fun handle_lines ::
  "(json \<Rightarrow> string) \<Rightarrow> line list \<Rightarrow> daemon \<Rightarrow> (response list \<times> handler_end) \<times> daemon" where
  "handle_lines fmt [] s = (if running s then (([], PeerClosed), s) else (([], NotRunning), s))"
| "handle_lines fmt ((parsed, wok, sok) # rest) s =
     (if \<not> running s then (([], NotRunning), s)
      else
        (case (case parsed of
                 Inl e \<Rightarrow> Inl e
               | Inr request \<Rightarrow> process_request fmt wok sok request s) of
           Inl e \<Rightarrow>
             (if e = JSONDecodeError
              then (case handle_lines fmt rest s of
                      ((rs, en), s2) \<Rightarrow> ((error_response ''Invalid JSON'' # rs, en), s2))
              else (([], Uncaught e), s))
         | Inr (response, s1) \<Rightarrow>
             (case handle_lines fmt rest s1 of
                ((rs, en), s2) \<Rightarrow> ((response # rs, en), s2))))"

text \<open>
  \<^verbatim>\<open>handle_client\<close>: whatever ends the loop, the \<^verbatim>\<open>finally\<close> block closes the writer.
\<close>

definition handle_client ::
  "(json \<Rightarrow> string) \<Rightarrow> line list \<Rightarrow> daemon \<Rightarrow> (response list \<times> handler_end) \<times> daemon" where
  "handle_client fmt ls s =
     (case handle_lines fmt ls (s\<lparr>current_client := True\<rparr>) of
        (r, s1) \<Rightarrow> (r, s1\<lparr>current_client := False\<rparr>))"

section \<open>Tasks interleaved with one connection procedure\<close>



text \<open>
  \<^verbatim>\<open>connect_ble\<close> gives control to other tasks at each \<^verbatim>\<open>await asyncio.sleep\<close>. Its first
  part \<open>connect_open\<close> runs up to the two assignments that mark the link connected and
  reset the backoff; what follows is a list of steps with a sleep after each send.
\<close>

definition connect_open :: "string \<Rightarrow> ble_env \<Rightarrow> daemon \<Rightarrow> bool \<times> daemon" where
  "connect_open addr env s =
     (case discover env of
        None \<Rightarrow> (False, s\<lparr>connected := False\<rparr>)
      | Some devices \<Rightarrow>
          (case select_device addr devices of
             None \<Rightarrow> (False, s)
           | Some a \<Rightarrow>
               if a = [] then (False, s)
               else
                 let s1 = s\<lparr>client := Some a\<rparr> in
                 if \<not> connect_ok env \<or> \<not> notify_ok env then (False, s1\<lparr>connected := False\<rparr>)
                 else (True, s1\<lparr>connected := True, reconnect_delay := RECONNECT_MIN_DELAY\<rparr>)))"

datatype op = Send frame | ApplyFan | ApplyPump | StartKeepalive

definition connect_ops :: "op list" where
  "connect_ops = map Send init_sequence @ [ApplyFan, ApplyPump, StartKeepalive]"

fun exec_op :: "bool \<Rightarrow> op \<Rightarrow> daemon \<Rightarrow> py_error + daemon" where
  "exec_op ok (Send cmd) s = Inr (snd (send_command ok cmd s))"
| "exec_op ok ApplyFan s =
     (case send_fan_speed ok Saved (fan_speed s) False s of
        Inl e \<Rightarrow> Inl e | Inr (r, s1) \<Rightarrow> Inr s1)"
| "exec_op ok ApplyPump s =
     (case send_pump_mode ok Saved (pump_mode s) False s of
        Inl e \<Rightarrow> Inl e | Inr (r, s1) \<Rightarrow> Inr s1)"
| "exec_op ok StartKeepalive s = Inr (start_keepalive s)"

text \<open>The steps run one after the other, as \<open>connect_ble\<close> does when no task interferes.\<close>

fun run_ops :: "(nat \<Rightarrow> bool) \<Rightarrow> nat \<Rightarrow> op list \<Rightarrow> daemon \<Rightarrow> bool \<times> daemon" where
  "run_ops w i [] s = (True, s)"
| "run_ops w i (x # xs) s =
     (case exec_op (w i) x s of
        Inl e \<Rightarrow> (False, s\<lparr>connected := False\<rparr>)
      | Inr s1 \<Rightarrow> run_ops w (Suc i) xs s1)"





section \<open>Stored settings within range\<close>

definition fan_ok :: "json \<Rightarrow> bool" where
  "fan_ok v = (isinstance_int v \<and> 0 \<le> int_value v \<and> int_value v \<le> 100)"

definition pump_ok :: "json \<Rightarrow> bool" where
  "pump_ok v = (isinstance_int v \<and> 0 \<le> int_value v \<and> int_value v \<le> 3)"

definition state_ok :: "daemon \<Rightarrow> bool" where
  "state_ok s = (fan_ok (fan_speed s) \<and> pump_ok (pump_mode s))"

section \<open>Frames written by the connecting task\<close>



section \<open>Example transports and states\<close>

text \<open>A scan that finds the device by its name, every call succeeding.\<close>

definition scan_found :: ble_env where
  "scan_found =
     \<lparr>discover = Some [Device ''AA:BB:CC:DD:EE:FF'' (Some ''CoolingSystem'')],
      connect_ok = True, notify_ok = True, write_ok = (\<lambda>i. True)\<rparr>"

text \<open>A scan that finds no device.\<close>

definition scan_empty :: ble_env where
  "scan_empty =
     \<lparr>discover = Some [], connect_ok = True, notify_ok = True, write_ok = (\<lambda>i. True)\<rparr>"






text \<open>The daemon started with fan 500 in the state file.\<close>

definition stored_500 :: daemon where
  "stored_500 = init_daemon (Holds (JObj [(''fan'', JInt 500)]))"

section \<open>Command codec\<close>

text \<open>
  C8. For every speed in [0,100] the fan frame is the 8 bytes
  fe 1b 01 speed 00 00 00 ef, and for every mode in {0,1,2,3} the pump frame is
  fe 1c 01 3c mode 00 00 ef; the byte at the value's offset reads back as the value.
\<close>

theorem frames_encoding:
  "(0 \<le> speed \<and> speed \<le> 100 \<longrightarrow>
      fan_cmd (JInt speed) = Inr [0xfe, 0x1b, 0x01, word_of_int speed, 0x00, 0x00, 0x00, 0xef]
      \<and> uint (word_of_int speed :: byte) = speed)
   \<and> (0 \<le> mode \<and> mode \<le> 3 \<longrightarrow>
      pump_cmd (JInt mode) = Inr [0xfe, 0x1c, 0x01, 0x3c, word_of_int mode, 0x00, 0x00, 0xef]
      \<and> uint (word_of_int mode :: byte) = mode)"
  by (auto simp: fan_cmd_def pump_cmd_def uint_word_of_int take_bit_eq_mod)

theorem frames_encoding_witness:
  "fan_cmd (JInt 100) = Inr [0xfe, 0x1b, 0x01, 0x64, 0x00, 0x00, 0x00, 0xef]
   \<and> pump_cmd (JInt 3) = Inr [0xfe, 0x1c, 0x01, 0x3c, 0x03, 0x00, 0x00, 0xef]"
  using frames_encoding [of 100 3] by simp

section \<open>Request validation\<close>

lemma fan_invalid:
  assumes "dict_get req ''cmd'' (JStr []) = JStr ''fan''"
    and "\<not> fan_ok (dict_get req ''value'' JNull)"
  shows "process_request fmt wok sok (JObj req) s =
           Inr (error_response ''Fan value must be 0-100'', s)"
  using assms unfolding process_request_def fan_ok_def by (simp add: Let_def)

lemma pump_invalid:
  assumes "dict_get req ''cmd'' (JStr []) = JStr ''pump''"
    and "\<not> pump_ok (dict_get req ''value'' JNull)"
  shows "process_request fmt wok sok (JObj req) s =
           Inr (error_response ''Pump mode must be 0-3'', s)"
  using assms unfolding process_request_def pump_ok_def by (simp add: Let_def)

text \<open>
  C3. A fan request whose value is not an integer in [0,100], and a pump request whose
  value is not an integer in {0,1,2,3}, is answered with ok=false and the range error,
  whatever the connection status; the daemon state, which includes the frames written
  to the link and the state file, is returned unchanged.
\<close>

theorem invalid_value_rejected:
  assumes "dict_get req ''cmd'' (JStr []) = JStr ''fan''
             \<and> \<not> fan_ok (dict_get req ''value'' JNull) \<and> msg = ''Fan value must be 0-100''
           \<or> dict_get req ''cmd'' (JStr []) = JStr ''pump''
             \<and> \<not> pump_ok (dict_get req ''value'' JNull) \<and> msg = ''Pump mode must be 0-3''"
  shows "process_request fmt wok sok (JObj req) s =
           Inr ([(''ok'', JBool False), (''error'', JStr msg)], s)"
  using assms
proof
  assume "dict_get req ''cmd'' (JStr []) = JStr ''fan''
             \<and> \<not> fan_ok (dict_get req ''value'' JNull) \<and> msg = ''Fan value must be 0-100''"
  then show ?thesis
    using fan_invalid [of req fmt wok sok s] by (simp add: error_response_def)
next
  assume "dict_get req ''cmd'' (JStr []) = JStr ''pump''
             \<and> \<not> pump_ok (dict_get req ''value'' JNull) \<and> msg = ''Pump mode must be 0-3''"
  then show ?thesis
    using pump_invalid [of req fmt wok sok s] by (simp add: error_response_def)
qed

theorem invalid_value_rejected_witness:
  "\<not> connected (init_daemon Absent)
   \<and> process_request (\<lambda>v. []) False (SaveFailed Absent) (JObj [(''cmd'', JStr ''fan''), (''value'', JInt 101)])
       (init_daemon Absent) =
     Inr ([(''ok'', JBool False), (''error'', JStr ''Fan value must be 0-100'')],
          init_daemon Absent)
   \<and> process_request (\<lambda>v. []) False (SaveFailed Absent) (JObj [(''cmd'', JStr ''pump''), (''value'', JStr ''2'')])
       (init_daemon Absent) =
     Inr ([(''ok'', JBool False), (''error'', JStr ''Pump mode must be 0-3'')],
          init_daemon Absent)"
proof -
  have c: "\<not> connected (init_daemon Absent)"
    by (simp add: init_daemon_def load_state_def)
  have f: "\<not> fan_ok (JInt 101)" and p: "\<not> pump_ok (JStr ''2'')"
    by (simp_all add: fan_ok_def pump_ok_def)
  show ?thesis
    using c f p
      invalid_value_rejected [of "[(''cmd'', JStr ''fan''), (''value'', JInt 101)]"
          "''Fan value must be 0-100''" "\<lambda>v. []" False "SaveFailed Absent" "init_daemon Absent"]
      invalid_value_rejected [of "[(''cmd'', JStr ''pump''), (''value'', JStr ''2'')]"
          "''Pump mode must be 0-3''" "\<lambda>v. []" False "SaveFailed Absent" "init_daemon Absent"]
    by (simp add: dict_get_def)
qed

lemma fan_not_connected:
  assumes "dict_get req ''cmd'' (JStr []) = JStr ''fan''"
    and "fan_ok (dict_get req ''value'' JNull)" and "\<not> connected s"
  shows "process_request fmt wok sok (JObj req) s =
           Inr (error_response ''Not connected to device'', s)"
  using assms unfolding process_request_def fan_ok_def by (simp add: Let_def)

lemma pump_not_connected:
  assumes "dict_get req ''cmd'' (JStr []) = JStr ''pump''"
    and "pump_ok (dict_get req ''value'' JNull)" and "\<not> connected s"
  shows "process_request fmt wok sok (JObj req) s =
           Inr (error_response ''Not connected to device'', s)"
  using assms unfolding process_request_def pump_ok_def by (simp add: Let_def)

text \<open>
  C4. A fan or pump request with a value in range, made while the daemon is not
  connected, is answered with ok=false and the error "Not connected to device"; the
  daemon state, with the frames written to the link and the state file, is unchanged.
\<close>

theorem not_connected_rejected:
  assumes "\<not> connected s"
    and "dict_get req ''cmd'' (JStr []) = JStr ''fan'' \<and> fan_ok (dict_get req ''value'' JNull)
         \<or> dict_get req ''cmd'' (JStr []) = JStr ''pump'' \<and> pump_ok (dict_get req ''value'' JNull)"
  shows "process_request fmt wok sok (JObj req) s =
           Inr ([(''ok'', JBool False), (''error'', JStr ''Not connected to device'')], s)"
  using assms(2)
proof
  assume "dict_get req ''cmd'' (JStr []) = JStr ''fan'' \<and> fan_ok (dict_get req ''value'' JNull)"
  then show ?thesis
    using fan_not_connected [of req s fmt wok sok] assms(1) by (simp add: error_response_def)
next
  assume "dict_get req ''cmd'' (JStr []) = JStr ''pump'' \<and> pump_ok (dict_get req ''value'' JNull)"
  then show ?thesis
    using pump_not_connected [of req s fmt wok sok] assms(1) by (simp add: error_response_def)
qed

theorem not_connected_rejected_witness:
  "process_request (\<lambda>v. []) True Saved (JObj [(''cmd'', JStr ''fan''), (''value'', JInt 50)])
       (init_daemon Absent) =
     Inr ([(''ok'', JBool False), (''error'', JStr ''Not connected to device'')],
          init_daemon Absent)
   \<and> process_request (\<lambda>v. []) True Saved (JObj [(''cmd'', JStr ''pump''), (''value'', JInt 2)])
       (init_daemon Absent) =
     Inr ([(''ok'', JBool False), (''error'', JStr ''Not connected to device'')],
          init_daemon Absent)"
proof -
  have c: "\<not> connected (init_daemon Absent)"
    by (simp add: init_daemon_def load_state_def)
  have f: "fan_ok (JInt 50)" and p: "pump_ok (JInt 2)"
    by (simp_all add: fan_ok_def pump_ok_def)
  show ?thesis
    using f p
      not_connected_rejected [OF c, of "[(''cmd'', JStr ''fan''), (''value'', JInt 50)]" "\<lambda>v. []" True Saved]
      not_connected_rejected [OF c, of "[(''cmd'', JStr ''pump''), (''value'', JInt 2)]" "\<lambda>v. []" True Saved]
    by (simp add: dict_get_def)
qed

section \<open>Mutating commands and the state file\<close>

lemma fan_sent:
  assumes "dict_get req ''cmd'' (JStr []) = JStr ''fan''"
    and "fan_ok (dict_get req ''value'' JNull)"
    and "connected s"
  shows "process_request fmt wok sok (JObj req) s =
           (case send_fan_speed wok sok (dict_get req ''value'' JNull) True s of
              Inl e \<Rightarrow> Inl e
            | Inr (success, s1) \<Rightarrow> Inr (state_response success s1, s1))"
  using assms unfolding process_request_def fan_ok_def by (simp add: Let_def)

lemma pump_sent:
  assumes "dict_get req ''cmd'' (JStr []) = JStr ''pump''"
    and "pump_ok (dict_get req ''value'' JNull)"
    and "connected s"
  shows "process_request fmt wok sok (JObj req) s =
           (case send_pump_mode wok sok (dict_get req ''value'' JNull) True s of
              Inl e \<Rightarrow> Inl e
            | Inr (success, s1) \<Rightarrow> Inr (state_response success s1, s1))"
  using assms unfolding process_request_def pump_ok_def by (simp add: Let_def)

lemma fan_ok_cmd: "fan_ok v \<Longrightarrow> \<exists>b. py_byte v = Inr b"
  by (cases v) (auto simp: fan_ok_def)

lemma pump_ok_cmd: "pump_ok v \<Longrightarrow> \<exists>b. py_byte v = Inr b"
  by (cases v) (auto simp: pump_ok_def)

lemma send_fan_speed_written:
  assumes "connected s" and "client s \<noteq> None" and "fan_cmd v = Inr cmd"
  shows "send_fan_speed True (SaveFailed left) v True s =
           Inr (True, s\<lparr>link := link s @ [cmd], fan_speed := v, disk := left\<rparr>)"
  using assms by (simp add: send_fan_speed_def send_command_def)

lemma send_pump_mode_written:
  assumes "connected s" and "client s \<noteq> None" and "pump_cmd v = Inr cmd"
  shows "send_pump_mode True (SaveFailed left) v True s =
           Inr (True, s\<lparr>link := link s @ [cmd], pump_mode := v, disk := left\<rparr>)"
  using assms by (simp add: send_pump_mode_def send_command_def)

text \<open>
  C9. When the daemon is connected, the frame of a valid fan or pump command is written
  to the link and the following write of the state file fails, in whatever condition
  \<open>left\<close> the failed write leaves the file, the request (handled as one step) raises
  nothing: the response has ok=true and carries the new value, the setting in memory is
  the new value, and the frame is on the link. The failure shows in nothing but the file.
\<close>

theorem save_failure_not_surfaced:
  assumes "connected s" and "client s \<noteq> None"
    and "v = dict_get req ''value'' JNull"
  shows "(dict_get req ''cmd'' (JStr []) = JStr ''fan'' \<and> fan_ok v \<longrightarrow>
            (\<exists>cmd. fan_cmd v = Inr cmd \<and>
               process_request fmt True (SaveFailed left) (JObj req) s =
                 Inr ([(''ok'', JBool True), (''connected'', JBool True),
                       (''fan'', v), (''pump'', pump_mode s)],
                      s\<lparr>link := link s @ [cmd], fan_speed := v, disk := left\<rparr>)))
       \<and> (dict_get req ''cmd'' (JStr []) = JStr ''pump'' \<and> pump_ok v \<longrightarrow>
            (\<exists>cmd. pump_cmd v = Inr cmd \<and>
               process_request fmt True (SaveFailed left) (JObj req) s =
                 Inr ([(''ok'', JBool True), (''connected'', JBool True),
                       (''fan'', fan_speed s), (''pump'', v)],
                      s\<lparr>link := link s @ [cmd], pump_mode := v, disk := left\<rparr>)))"
proof (intro conjI impI)
  assume a: "dict_get req ''cmd'' (JStr []) = JStr ''fan'' \<and> fan_ok v"
  then obtain b where b: "py_byte v = Inr b" using fan_ok_cmd by blast
  then obtain cmd where c: "fan_cmd v = Inr cmd" by (simp add: fan_cmd_def)
  have "process_request fmt True (SaveFailed left) (JObj req) s =
          (case send_fan_speed True (SaveFailed left) v True s of
             Inl e \<Rightarrow> Inl e
           | Inr (success, s1) \<Rightarrow> Inr (state_response success s1, s1))"
    using fan_sent [of req s fmt True "SaveFailed left"] a assms by simp
  with c show "\<exists>cmd. fan_cmd v = Inr cmd \<and>
               process_request fmt True (SaveFailed left) (JObj req) s =
                 Inr ([(''ok'', JBool True), (''connected'', JBool True),
                       (''fan'', v), (''pump'', pump_mode s)],
                      s\<lparr>link := link s @ [cmd], fan_speed := v, disk := left\<rparr>)"
    using send_fan_speed_written [OF assms(1,2) c, of left] assms(1)
    by (simp add: state_response_def)
next
  assume a: "dict_get req ''cmd'' (JStr []) = JStr ''pump'' \<and> pump_ok v"
  then obtain b where b: "py_byte v = Inr b" using pump_ok_cmd by blast
  then obtain cmd where c: "pump_cmd v = Inr cmd" by (simp add: pump_cmd_def)
  have "process_request fmt True (SaveFailed left) (JObj req) s =
          (case send_pump_mode True (SaveFailed left) v True s of
             Inl e \<Rightarrow> Inl e
           | Inr (success, s1) \<Rightarrow> Inr (state_response success s1, s1))"
    using pump_sent [of req s fmt True "SaveFailed left"] a assms by simp
  with c show "\<exists>cmd. pump_cmd v = Inr cmd \<and>
               process_request fmt True (SaveFailed left) (JObj req) s =
                 Inr ([(''ok'', JBool True), (''connected'', JBool True),
                       (''fan'', fan_speed s), (''pump'', v)],
                      s\<lparr>link := link s @ [cmd], pump_mode := v, disk := left\<rparr>)"
    using send_pump_mode_written [OF assms(1,2) c, of left] assms(1)
    by (simp add: state_response_def)
qed

theorem save_failure_not_surfaced_witness:
  "process_request (\<lambda>v. []) True (SaveFailed Unloadable)
     (JObj [(''cmd'', JStr ''fan''), (''value'', JInt 30)])
     ((init_daemon (Holds (JObj [(''fan'', JInt 60), (''pump'', JInt 0)])))
        \<lparr>client := Some ''AA:BB:CC:DD:EE:FF'', connected := True\<rparr>) =
   Inr ([(''ok'', JBool True), (''connected'', JBool True), (''fan'', JInt 30), (''pump'', JInt 0)],
        (init_daemon (Holds (JObj [(''fan'', JInt 60), (''pump'', JInt 0)])))
          \<lparr>client := Some ''AA:BB:CC:DD:EE:FF'', connected := True,
           link := [[0xfe, 0x1b, 0x01, 0x1e, 0x00, 0x00, 0x00, 0xef]], fan_speed := JInt 30,
           disk := Unloadable\<rparr>)"
proof -
  have f: "fan_ok (JInt 30)" by (simp add: fan_ok_def)
  have c: "fan_cmd (JInt 30) = Inr [0xfe, 0x1b, 0x01, 0x1e, 0x00, 0x00, 0x00, 0xef]"
    by (simp add: fan_cmd_def)
  have i: "link (init_daemon (Holds (JObj [(''fan'', JInt 60), (''pump'', JInt 0)]))) = []"
    "pump_mode (init_daemon (Holds (JObj [(''fan'', JInt 60), (''pump'', JInt 0)]))) = JInt 0"
    by (simp_all add: init_daemon_def load_state_def dict_get_def)
  show ?thesis
    using f c i
      save_failure_not_surfaced
        [of "(init_daemon (Holds (JObj [(''fan'', JInt 60), (''pump'', JInt 0)])))
               \<lparr>client := Some ''AA:BB:CC:DD:EE:FF'', connected := True\<rparr>"
          "JInt 30" "[(''cmd'', JStr ''fan''), (''value'', JInt 30)]" "\<lambda>v. []" Unloadable]
    by (simp add: dict_get_def)
qed

section \<open>Client lines that are no JSON object\<close>

lemma process_request_non_object:
  "\<forall>req. v \<noteq> JObj req \<Longrightarrow> process_request fmt wok sok v s = Inl AttributeError"
  by (cases v) (simp_all add: process_request_def)

lemma unknown_command:
  "process_request fmt wok sok (JObj [(''cmd'', JStr ''bogus'')]) s =
     Inr (error_response (''Unknown command: '' @ fmt (JStr ''bogus'')), s)"
  unfolding process_request_def by (simp add: Let_def dict_get_def)

text \<open>
  C10. A client line that parses as JSON to anything but an object makes
  \<^verbatim>\<open>process_request\<close> raise \<^verbatim>\<open>AttributeError\<close>; the handler's loop does not catch it, so
  the connection is closed with no response for that line and the lines after it are
  never read. An unparsable line and an unknown command are answered with an ok=false
  response instead, and the loop goes on.
\<close>

theorem non_object_closes_connection:
  assumes "running s" and "\<forall>req. v \<noteq> JObj req"
  shows "process_request fmt wok sok v s = Inl AttributeError
       \<and> handle_client fmt ((Inr v, wok, sok) # rest) s =
           (([], Uncaught AttributeError), s\<lparr>current_client := False\<rparr>)
       \<and> handle_client fmt [(Inl JSONDecodeError, wok, sok)] s =
           (([[(''ok'', JBool False), (''error'', JStr ''Invalid JSON'')]], PeerClosed),
            s\<lparr>current_client := False\<rparr>)
       \<and> handle_client fmt [(Inr (JObj [(''cmd'', JStr ''bogus'')]), wok, sok)] s =
           (([[(''ok'', JBool False),
               (''error'', JStr (''Unknown command: '' @ fmt (JStr ''bogus'')))]], PeerClosed),
            s\<lparr>current_client := False\<rparr>)"
proof -
  have a: "process_request fmt wok sok v s1 = Inl AttributeError" for s1
    using assms(2) by (rule process_request_non_object)
  show ?thesis
    using assms(1) a unknown_command [of fmt wok sok]
    by (simp add: handle_client_def error_response_def)
qed

theorem non_object_closes_connection_witness:
  "handle_client (\<lambda>v. []) [(Inr (JArr [JInt 1]), True, Saved),
                            (Inr (JObj [(''cmd'', JStr ''status'')]), True, Saved)]
     (init_daemon Absent) =
   (([], Uncaught AttributeError), init_daemon Absent)"
proof -
  have r: "running (init_daemon Absent)" and c: "\<not> current_client (init_daemon Absent)"
    by (simp_all add: init_daemon_def load_state_def)
  have n: "\<forall>req. JArr [JInt 1] \<noteq> JObj req" by simp
  have e: "(init_daemon Absent)\<lparr>current_client := False\<rparr> = init_daemon Absent"
    using c by simp
  show ?thesis
    using non_object_closes_connection [OF r n, of "\<lambda>v. []" True Saved
        "[(Inr (JObj [(''cmd'', JStr ''status'')]), True, Saved)]"] e
    by simp
qed

section \<open>Device selection\<close>

text \<open>
  C6. With the address AA:BB:CC:DD:EE:FF configured and a scan that lists first a device
  with another address whose name contains the device name, then the device with the
  configured address, the loop selects the first one: the name test is made for every
  device, also when an address is configured.
\<close>

theorem select_device_takes_earlier_name_match:
  "select_device ''AA:BB:CC:DD:EE:FF''
     [Device ''11:22:33:44:55:66'' (Some ''CoolingSystem''),
      Device ''AA:BB:CC:DD:EE:FF'' (Some ''CoolingSystem'')] = Some ''11:22:33:44:55:66''"
  by (simp add: lower_def lower_char_def DEVICE_NAME_def)

section \<open>Loading the state file\<close>

text \<open>
  C2. A state file holding the JSON object with fan 500 and pump 7 is loaded as it is:
  after \<^verbatim>\<open>__init__\<close> the fan speed is 500 and the pump mode is 7, outside the ranges.
\<close>

theorem load_state_keeps_out_of_range_values:
  "fan_speed (init_daemon (Holds (JObj [(''fan'', JInt 500), (''pump'', JInt 7)]))) = JInt 500
   \<and> pump_mode (init_daemon (Holds (JObj [(''fan'', JInt 500), (''pump'', JInt 7)]))) = JInt 7
   \<and> \<not> state_ok (init_daemon (Holds (JObj [(''fan'', JInt 500), (''pump'', JInt 7)])))"
  by (simp add: init_daemon_def load_state_def dict_get_def state_ok_def fan_ok_def)

section \<open>Initialization and resync on connect\<close>


lemma send_command_keeps:
  "disk (snd (send_command ok cmd s)) = disk s
   \<and> fan_speed (snd (send_command ok cmd s)) = fan_speed s
   \<and> pump_mode (snd (send_command ok cmd s)) = pump_mode s
   \<and> client (snd (send_command ok cmd s)) = client s
   \<and> reconnect_delay (snd (send_command ok cmd s)) = reconnect_delay s
   \<and> running (snd (send_command ok cmd s)) = running s"
  by (simp add: send_command_def schedule_reconnect_def)

lemma send_all_keeps:
  "disk (send_all w i cmds s) = disk s
   \<and> fan_speed (send_all w i cmds s) = fan_speed s
   \<and> pump_mode (send_all w i cmds s) = pump_mode s
   \<and> client (send_all w i cmds s) = client s
   \<and> reconnect_delay (send_all w i cmds s) = reconnect_delay s
   \<and> running (send_all w i cmds s) = running s"
  by (induction cmds arbitrary: s i) (simp_all add: send_command_keeps)

lemma init_device_keeps:
  "disk (init_device w s) = disk s
   \<and> fan_speed (init_device w s) = fan_speed s
   \<and> pump_mode (init_device w s) = pump_mode s
   \<and> client (init_device w s) = client s
   \<and> reconnect_delay (init_device w s) = reconnect_delay s
   \<and> running (init_device w s) = running s"
  by (simp add: init_device_def send_all_keeps)

lemma send_fan_speed_resync:
  assumes "send_fan_speed wok sok v False s = Inr (r, s1)"
  shows "disk s1 = disk s \<and> pump_mode s1 = pump_mode s \<and> client s1 = client s
         \<and> reconnect_delay s1 = reconnect_delay s
         \<and> (fan_speed s1 = v \<or> fan_speed s1 = fan_speed s)
         \<and> (connected s1 \<longrightarrow> client s \<noteq> None \<longrightarrow>
              (\<exists>cmd. fan_cmd v = Inr cmd \<and> s1 = s\<lparr>link := link s @ [cmd], fan_speed := v\<rparr>))"
  using assms
  by (auto simp: send_fan_speed_def send_command_def schedule_reconnect_def
           split: sum.splits if_splits)

lemma send_pump_mode_resync:
  assumes "send_pump_mode wok sok v False s = Inr (r, s1)"
  shows "disk s1 = disk s \<and> fan_speed s1 = fan_speed s \<and> client s1 = client s
         \<and> reconnect_delay s1 = reconnect_delay s
         \<and> (pump_mode s1 = v \<or> pump_mode s1 = pump_mode s)
         \<and> (connected s1 \<longrightarrow> client s \<noteq> None \<longrightarrow>
              (\<exists>cmd. pump_cmd v = Inr cmd \<and> s1 = s\<lparr>link := link s @ [cmd], pump_mode := v\<rparr>))"
  using assms
  by (auto simp: send_pump_mode_def send_command_def schedule_reconnect_def
           split: sum.splits if_splits)







lemma send_all_ok:
  "connected s \<Longrightarrow> client s \<noteq> None \<Longrightarrow>
   send_all (\<lambda>i. True) i cmds s = s\<lparr>link := link s @ cmds\<rparr>"
  by (induction cmds arbitrary: s i) (simp_all add: send_command_def)

lemma init_device_ok:
  "connected s \<Longrightarrow> client s \<noteq> None \<Longrightarrow>
   init_device (\<lambda>i. True) s = s\<lparr>link := link s @ init_sequence\<rparr>"
  by (simp add: init_device_def send_all_ok init_sequence_def)



lemma length_init_sequence: "length init_sequence = 9"
  by (simp add: init_sequence_def init_cmds_def)






lemma connect_ble_keeps_settings:
  "fan_speed (snd (connect_ble addr env s)) = fan_speed s
   \<and> pump_mode (snd (connect_ble addr env s)) = pump_mode s"
proof -
  have f: "send_fan_speed wok sok v False s0 = Inr (r, s1) \<Longrightarrow>
           pump_mode s1 = pump_mode s0 \<and> (fan_speed s0 = v \<longrightarrow> fan_speed s1 = v)"
    for wok sok v s0 r s1 using send_fan_speed_resync by metis
  have p: "send_pump_mode wok sok v False s0 = Inr (r, s1) \<Longrightarrow>
           fan_speed s1 = fan_speed s0 \<and> (pump_mode s0 = v \<longrightarrow> pump_mode s1 = v)"
    for wok sok v s0 r s1 using send_pump_mode_resync by metis
  show ?thesis
    by (auto simp: connect_ble_def Let_def init_device_keeps start_keepalive_def
             split: option.splits sum.splits dest!: f p)
qed



section \<open>Client requests during the handshake\<close>

text \<open>Run one after the other, the steps amount to \<open>connect_ble\<close>.\<close>

lemma send_all_append:
  "send_all w i (xs @ ys) s = send_all w (i + length xs) ys (send_all w i xs s)"
  by (induction xs arbitrary: i s) simp_all

lemma init_device_sequence: "init_device w s = send_all w 0 init_sequence s"
proof -
  have "length init_cmds = 5" by (simp add: init_cmds_def)
  then show ?thesis by (simp add: init_device_def init_sequence_def send_all_append)
qed

lemma run_ops_sends:
  "run_ops w i (map Send cmds @ rest) s =
     run_ops w (i + length cmds) rest (send_all w i cmds s)"
  by (induction cmds arbitrary: i s) simp_all

lemma run_ops_resync:
  "run_ops w 9 [ApplyFan, ApplyPump, StartKeepalive] s3 =
     (case send_fan_speed (w 9) Saved (fan_speed s3) False s3 of
        Inl e \<Rightarrow> (False, s3\<lparr>connected := False\<rparr>)
      | Inr (r4, s4) \<Rightarrow>
          (case send_pump_mode (w 10) Saved (pump_mode s4) False s4 of
             Inl e \<Rightarrow> (False, s4\<lparr>connected := False\<rparr>)
           | Inr (r5, s5) \<Rightarrow> (True, start_keepalive s5)))"
  by (simp split: sum.splits prod.splits)

lemma connect_ble_steps:
  "connect_ble addr env s =
     (case connect_open addr env s of
        (True, s1) \<Rightarrow> run_ops (write_ok env) 0 connect_ops s1
      | (False, s1) \<Rightarrow> (False, s1))"
proof -
  have r: "run_ops w 0 connect_ops s2 =
             run_ops w 9 [ApplyFan, ApplyPump, StartKeepalive] (init_device w s2)" for w s2
    by (simp add: connect_ops_def run_ops_sends length_init_sequence init_device_sequence)
  show ?thesis
    unfolding connect_ble_def connect_open_def r run_ops_resync
    by (simp add: Let_def split: option.splits)
qed
































section \<open>Reconnect backoff\<close>

lemma stored_500_fields:
  "fan_speed stored_500 = JInt 500" "running stored_500" "\<not> connected stored_500"
  "reconnect_delay stored_500 = 1" "\<not> reconnect_task stored_500"
  by (simp_all add: stored_500_def init_daemon_def load_state_def dict_get_def
        RECONNECT_MIN_DELAY_def)

lemma connect_scan_empty: "connect_ble addr scan_empty s = (False, s)"
  by (simp add: connect_ble_def scan_empty_def)

lemma connect_found_bad_fan:
  assumes "fan_speed s = JInt 500"
  shows "connect_ble [] scan_found s =
           (False, s\<lparr>client := Some ''AA:BB:CC:DD:EE:FF'', connected := False,
                      reconnect_delay := RECONNECT_MIN_DELAY,
                      link := link s @ init_sequence\<rparr>)"
proof -
  have d: "discover scan_found = Some [Device ''AA:BB:CC:DD:EE:FF'' (Some ''CoolingSystem'')]"
    "connect_ok scan_found" "notify_ok scan_found" "write_ok scan_found = (\<lambda>i. True)"
    by (simp_all add: scan_found_def)
  show ?thesis
    unfolding connect_ble_def
    by (simp add: d Let_def lower_def lower_char_def DEVICE_NAME_def init_device_ok
          assms send_fan_speed_def fan_cmd_def)
qed

lemma connect_ble_failed_delay:
  assumes "state_ok s" and "connect_ble addr env s = (False, s1)"
  shows "reconnect_delay s1 = reconnect_delay s"
proof -
  obtain bf where bf: "fan_cmd (fan_speed s) = Inr bf"
    using assms(1) fan_ok_cmd by (fastforce simp: state_ok_def fan_cmd_def)
  obtain bp where bp: "pump_cmd (pump_mode s) = Inr bp"
    using assms(1) pump_ok_cmd by (fastforce simp: state_ok_def pump_cmd_def)
  have f: "send_fan_speed wok sok (fan_speed s) False s0 \<noteq> Inl e" for wok sok s0 e
    using bf by (simp add: send_fan_speed_def split: prod.splits bool.splits)
  have p: "send_pump_mode wok sok (pump_mode s) False s0 \<noteq> Inl e" for wok sok s0 e
    using bp by (simp add: send_pump_mode_def split: prod.splits bool.splits)
  have k: "send_fan_speed wok sok (fan_speed s) False s0 = Inr (r, s4) \<Longrightarrow>
           pump_mode s0 = pump_mode s \<Longrightarrow> pump_mode s4 = pump_mode s"
    for wok sok s0 r s4 using send_fan_speed_resync by metis
  show ?thesis
    using assms(2)
    by (auto simp: connect_ble_def Let_def init_device_keeps
             split: option.splits if_splits sum.splits dest: k simp: f p)
qed

lemma connect_ble_state_ok: "state_ok s \<Longrightarrow> state_ok (snd (connect_ble addr env s))"
  by (simp add: state_ok_def connect_ble_keeps_settings)

text \<open>
  With the stored settings within range a failed attempt leaves the delay as it was, so
  that the delays slept by the reconnect loop never decrease and stay below the ceiling.
\<close>

lemma reconnect_delays_sorted:
  assumes "state_ok s" and "0 \<le> reconnect_delay s"
    and "reconnect_delay s \<le> RECONNECT_MAX_DELAY"
  shows "sorted (fst (reconnect addr envs s))
         \<and> (\<forall>d\<in>set (fst (reconnect addr envs s)).
               reconnect_delay s \<le> d \<and> d \<le> RECONNECT_MAX_DELAY)"
  using assms
proof (induction envs arbitrary: s)
  case Nil
  show ?case by simp
next
  case (Cons env envs)
  obtain r s1 where c: "connect_ble addr env s = (r, s1)" by (cases "connect_ble addr env s")
  show ?case
  proof (cases "running s \<and> \<not> connected s")
    case False
    then show ?thesis by auto
  next
    case go: True
    show ?thesis
    proof (cases r)
      case True
      with c go Cons.prems show ?thesis by simp
    next
      case False
      let ?d = "min (reconnect_delay s * 2) RECONNECT_MAX_DELAY"
      let ?s2 = "s1\<lparr>reconnect_delay := ?d\<rparr>"
      have d1: "reconnect_delay s1 = reconnect_delay s"
        using connect_ble_failed_delay [OF Cons.prems(1)] c False by simp
      have ok: "state_ok ?s2"
        using connect_ble_state_ok [OF Cons.prems(1), of addr env] c by (simp add: state_ok_def)
      have le: "reconnect_delay s \<le> ?d" using Cons.prems(2,3) by simp
      have b: "0 \<le> reconnect_delay ?s2" "reconnect_delay ?s2 \<le> RECONNECT_MAX_DELAY"
        using Cons.prems(2) by (simp_all add: RECONNECT_MAX_DELAY_def)
      from Cons.IH [OF ok b]
      have ih: "sorted (fst (reconnect addr envs ?s2))
         \<and> (\<forall>d\<in>set (fst (reconnect addr envs ?s2)). ?d \<le> d \<and> d \<le> RECONNECT_MAX_DELAY)"
        by simp
      have e: "fst (reconnect addr (env # envs) s) =
                 reconnect_delay s # fst (reconnect addr envs ?s2)"
        using c go False d1 by (simp split: prod.splits)
      show ?thesis
        unfolding e using ih le Cons.prems(3) by fastforce
    qed
  qed
qed

text \<open>
  C5. With fan 500 in the state file the daemon starts, finds no device and schedules
  the reconnect loop. The loop sleeps 1, finds no device, sleeps 2, finds no device,
  sleeps 4 and finds the device: \<^verbatim>\<open>connect_ble\<close> marks the link connected and resets the
  delay to 1, sends the initialization sequence and then fails in the resync, since
  \<^verbatim>\<open>bytes\<close> rejects 500. The loop doubles 1 to 2: after a failed attempt the delay has
  fallen from 4 to 2.
\<close>

theorem reconnect_delay_falls_back:
  "fst (reconnect [] [scan_empty, scan_empty, scan_found, scan_empty]
          (schedule_reconnect (snd (connect_ble [] scan_empty stored_500)))) = [1, 2, 4, 2]"
  by (simp add: connect_scan_empty connect_found_bad_fan schedule_reconnect_def
        stored_500_fields RECONNECT_MIN_DELAY_def RECONNECT_MAX_DELAY_def)

theorem reconnect_delay_falls_back_witness:
  "\<not> sorted (fst (reconnect [] [scan_empty, scan_empty, scan_found, scan_empty]
                     (schedule_reconnect (snd (connect_ble [] scan_empty stored_500)))))"
  using reconnect_delay_falls_back by simp

end
